theory Spec2Isabelle
  imports Main "HOL-Library.AList"
begin

section \<open>Enumerations of \<^verbatim>\<open>vcd/core.py\<close>\<close>

text \<open>
  The three \<^verbatim>\<open>Enum\<close> classes of the module. A member is written with its class as a
  prefix (\<^verbatim>\<open>ElementType.object\<close> is \<open>ET_object\<close>); \<open>ElementType_name\<close> is the member's
  \<^verbatim>\<open>.name\<close>; a dictionary key \<^verbatim>\<open>element_type.name + 's'\<close> is modelled by the member
  itself. Python raises \<^verbatim>\<open>AttributeError\<close> for an attribute that is not a member
  and \<^verbatim>\<open>KeyError\<close> for \<^verbatim>\<open>StreamType[s]\<close> when \<^verbatim>\<open>s\<close> is not a member's name.
\<close>

datatype ElementType = ET_object | ET_action | ET_event | ET_context | ET_relation

datatype StreamType = ST_camera | ST_lidar | ST_radar | ST_gps_imu | ST_other

datatype error = KeyError | AttributeError | AssertionError | TypeError

fun ElementType_name :: "ElementType \<Rightarrow> string" where
  "ElementType_name ET_object = ''object''"
| "ElementType_name ET_action = ''action''"
| "ElementType_name ET_event = ''event''"
| "ElementType_name ET_context = ''context''"
| "ElementType_name ET_relation = ''relation''"

fun StreamType_name :: "StreamType \<Rightarrow> string" where
  "StreamType_name ST_camera = ''camera''"
| "StreamType_name ST_lidar = ''lidar''"
| "StreamType_name ST_radar = ''radar''"
| "StreamType_name ST_gps_imu = ''gps_imu''"
| "StreamType_name ST_other = ''other''"

text \<open>\<^verbatim>\<open>ElementType.<attr>\<close>: attribute access on the enumeration class.\<close>

definition ElementType_attr :: "string \<Rightarrow> error + ElementType" where
  "ElementType_attr a =
     (if a = ''object'' then Inr ET_object
      else if a = ''action'' then Inr ET_action
      else if a = ''event'' then Inr ET_event
      else if a = ''context'' then Inr ET_context
      else if a = ''relation'' then Inr ET_relation
      else Inl AttributeError)"

text \<open>\<^verbatim>\<open>StreamType[s]\<close>: lookup of a member by its name.\<close>

definition StreamType_getitem :: "string \<Rightarrow> error + StreamType" where
  "StreamType_getitem s =
     (if s = ''camera'' then Inr ST_camera
      else if s = ''lidar'' then Inr ST_lidar
      else if s = ''radar'' then Inr ST_radar
      else if s = ''gps_imu'' then Inr ST_gps_imu
      else if s = ''other'' then Inr ST_other
      else Inl KeyError)"

section \<open>Frame intervals\<close>

text \<open>
  A frame interval on the wire is the dictionary
  \<^verbatim>\<open>{'frame_start': a, 'frame_end': b}\<close>; the numeric view is the pair \<open>(a, b)\<close>.
  Frame numbers are Python integers, hence \<open>int\<close>.
\<close>

datatype fi_dict = FI (frame_start: int) (frame_end: int)

text \<open>
  The functions of \<^verbatim>\<open>vcd/utils.py\<close> that \<^verbatim>\<open>core.py\<close> calls. The text of that module
  is not at hand, so each of them is written from section 4.1 of the specification.
\<close>

text \<open>Modelled from the spec: \<^verbatim>\<open>utils.as_frame_intervals_array_dict\<close>, the conversion
  of numeric pairs into start/end records.\<close>

definition as_frame_intervals_array_dict :: "(int \<times> int) list \<Rightarrow> fi_dict list" where
  "as_frame_intervals_array_dict fis = map (\<lambda>p. FI (fst p) (snd p)) fis"

text \<open>Modelled from the spec: \<^verbatim>\<open>utils.as_frame_intervals_array_tuples\<close>, the conversion
  of start/end records into numeric pairs.\<close>

definition as_frame_intervals_array_tuples :: "fi_dict list \<Rightarrow> (int \<times> int) list" where
  "as_frame_intervals_array_tuples fis = map (\<lambda>d. (frame_start d, frame_end d)) fis"

text \<open>Modelled from the spec: the merging pass of \<^verbatim>\<open>utils.fuse_frame_intervals\<close>
  over a list already sorted by start: the next interval is
  absorbed into the current one when it overlaps it or is contiguous to it (it starts at
  most one frame after the current end); the covering interval keeps the current start
  and the larger end.
\<close>

fun merge_sorted :: "fi_dict list \<Rightarrow> fi_dict list" where
  "merge_sorted (a # b # rest) =
     (if frame_start b \<le> frame_end a + 1
      then merge_sorted (FI (frame_start a) (max (frame_end a) (frame_end b)) # rest)
      else a # merge_sorted (b # rest))"
| "merge_sorted fis = fis"

text \<open>Modelled from the spec: \<^verbatim>\<open>utils.fuse_frame_intervals\<close>, "sort by start, then merge
  any two intervals that overlap or are contiguous into a single covering interval".\<close>

definition fuse_frame_intervals :: "fi_dict list \<Rightarrow> fi_dict list" where
  "fuse_frame_intervals fis = merge_sorted (sort_key frame_start fis)"

text \<open>Modelled from the spec: \<^verbatim>\<open>utils.is_inside_frame_intervals\<close>, "true iff any
  interval satisfies start <= n <= end".\<close>

definition is_inside_frame_intervals :: "int \<Rightarrow> (int \<times> int) list \<Rightarrow> bool" where
  "is_inside_frame_intervals n fis = list_ex (\<lambda>p. fst p \<le> n \<and> n \<le> snd p) fis"

text \<open>Modelled from the spec: \<^verbatim>\<open>utils.intersection_between_frame_interval_arrays\<close>,
  "for every pair (a, b), if max(a.start, b.start) <= min(a.end, b.end), emit that
  overlap; collect all emitted overlaps".\<close>

definition intersection_between_frame_interval_arrays ::
  "(int \<times> int) list \<Rightarrow> (int \<times> int) list \<Rightarrow> (int \<times> int) list" where
  "intersection_between_frame_interval_arrays fis_a fis_b =
     concat (map (\<lambda>a. concat (map (\<lambda>b.
        if max (fst a) (fst b) \<le> min (snd a) (snd b)
        then [(max (fst a) (fst b), min (snd a) (snd b))] else []) fis_b)) fis_a)"

text \<open>Modelled from the spec: \<^verbatim>\<open>utils.rm_frame_from_frame_intervals\<close>: the interval
  holding \<open>n\<close> is deleted if it is the single frame \<open>n\<close>, shrunk from the start if \<open>n\<close> is
  its start, shrunk from the end if \<open>n\<close> is its end, split in two if \<open>n\<close> is strictly
  inside; the other intervals are untouched.\<close>

fun rm_frame_from_frame_intervals :: "fi_dict list \<Rightarrow> int \<Rightarrow> fi_dict list" where
  "rm_frame_from_frame_intervals [] n = []"
| "rm_frame_from_frame_intervals (fi # fis) n =
     (if frame_start fi \<le> n \<and> n \<le> frame_end fi
      then (if frame_start fi = n \<and> frame_end fi = n then []
            else if frame_start fi = n then [FI (n + 1) (frame_end fi)]
            else if frame_end fi = n then [FI (frame_start fi) (n - 1)]
            else [FI (frame_start fi) (n - 1), FI (n + 1) (frame_end fi)])
      else [fi]) @ rm_frame_from_frame_intervals fis n"

subsection \<open>The class \<^verbatim>\<open>FrameIntervals\<close>\<close>

text \<open>
  The constructor's argument is any Python value; the cases the constructor tells apart
  are the constructors of \<open>frame_value\<close>. \<open>FV_mixed_list\<close> is a non-empty list that is
  neither all tuples nor all dictionaries, \<open>FV_other\<close> any other value (the constructor
  warns and leaves both views empty). Warnings change neither the state nor a result and
  are not modelled.
\<close>

datatype frame_value =
    FV_None
  | FV_int int
  | FV_tuples "(int \<times> int) list"
  | FV_dicts "fi_dict list"
  | FV_mixed_list
  | FV_tuple "int \<times> int"
  | FV_dict fi_dict
  | FV_other

record FrameIntervals =
  fis_dict :: "fi_dict list"
  fis_num :: "(int \<times> int) list"

definition FrameIntervals_of_dicts :: "fi_dict list \<Rightarrow> FrameIntervals" where
  "FrameIntervals_of_dicts ds =
     (if ds = [] then \<lparr>fis_dict = [], fis_num = []\<rparr>
      else \<lparr>fis_dict = fuse_frame_intervals ds,
            fis_num = as_frame_intervals_array_tuples (fuse_frame_intervals ds)\<rparr>)"

fun FrameIntervals_init :: "frame_value \<Rightarrow> FrameIntervals" where
  "FrameIntervals_init FV_None = \<lparr>fis_dict = [], fis_num = []\<rparr>"
| "FrameIntervals_init (FV_int n) = \<lparr>fis_dict = [FI n n], fis_num = [(n, n)]\<rparr>"
| "FrameIntervals_init (FV_tuples ts) =
     FrameIntervals_of_dicts (as_frame_intervals_array_dict ts)"
| "FrameIntervals_init (FV_dicts ds) = FrameIntervals_of_dicts ds"
| "FrameIntervals_init FV_mixed_list = \<lparr>fis_dict = [], fis_num = []\<rparr>"
| "FrameIntervals_init (FV_tuple t) =
     \<lparr>fis_dict = as_frame_intervals_array_dict [t], fis_num = [t]\<rparr>"
| "FrameIntervals_init (FV_dict d) =
     \<lparr>fis_dict = [d], fis_num = as_frame_intervals_array_tuples [d]\<rparr>"
| "FrameIntervals_init FV_other = \<lparr>fis_dict = [], fis_num = []\<rparr>"

definition FrameIntervals_empty :: "FrameIntervals \<Rightarrow> bool" where
  "FrameIntervals_empty fis = (length (fis_dict fis) = 0 \<or> length (fis_num fis) = 0)"

definition FrameIntervals_union :: "FrameIntervals \<Rightarrow> FrameIntervals \<Rightarrow> FrameIntervals" where
  "FrameIntervals_union self frame_intervals =
     FrameIntervals_init (FV_dicts (fuse_frame_intervals (fis_dict frame_intervals @ fis_dict self)))"

definition FrameIntervals_intersection ::
  "FrameIntervals \<Rightarrow> FrameIntervals \<Rightarrow> FrameIntervals" where
  "FrameIntervals_intersection self frame_intervals =
     FrameIntervals_init
       (FV_tuples (intersection_between_frame_interval_arrays (fis_num self) (fis_num frame_intervals)))"

definition FrameIntervals_has_frame :: "FrameIntervals \<Rightarrow> int \<Rightarrow> bool" where
  "FrameIntervals_has_frame self frame_num = is_inside_frame_intervals frame_num (fis_num self)"


text \<open>
  The canonical form of an interval list: sorted by start, and every interval ends at
  least two frames before the next one starts (disjoint and not contiguous).
\<close>

fun canonical :: "fi_dict list \<Rightarrow> bool" where
  "canonical (a # b # rest) =
     (frame_start a \<le> frame_start b \<and> frame_end a + 1 < frame_start b \<and> canonical (b # rest))"
| "canonical fis = True"


section \<open>Python values and dictionaries\<close>

text \<open>
  JSON-like values, for the free-form property dictionaries. A dictionary is an
  association list with distinct keys in insertion order: \<open>map_of d k\<close> is \<^verbatim>\<open>d.get(k)\<close>,
  \<open>AList.update k v d\<close> is \<^verbatim>\<open>d[k] = v\<close> (an existing key keeps its place, a new one goes
  last), \<open>AList.delete k d\<close> is \<^verbatim>\<open>del d[k]\<close> for a key that is present.
\<close>

datatype pyval =
    V_None
  | V_int int
  | V_str string
  | V_bool bool
  | V_list "pyval list"
  | V_dict "(string \<times> pyval) list"

definition setdefault :: "'k \<Rightarrow> 'v \<Rightarrow> ('k \<times> 'v) list \<Rightarrow> ('k \<times> 'v) list" where
  "setdefault k v d = (case map_of d k of None \<Rightarrow> d @ [(k, v)] | Some _ \<Rightarrow> d)"

text \<open>\<^verbatim>\<open>d.update(other)\<close>.\<close>

definition dict_update :: "('k \<times> 'v) list \<Rightarrow> ('k \<times> 'v) list \<Rightarrow> ('k \<times> 'v) list" where
  "dict_update d other = fold (\<lambda>kv. AList.update (fst kv) (snd kv)) other d"

subsection \<open>\<^verbatim>\<open>str(n)\<close>, \<^verbatim>\<open>str.isnumeric\<close> and the UUID pattern\<close>

definition digit_char :: "nat \<Rightarrow> char" where
  "digit_char n = ''0123456789'' ! (n mod 10)"

fun str_nat :: "nat \<Rightarrow> string" where
  "str_nat n = (if n < 10 then [digit_char n] else str_nat (n div 10) @ [digit_char n])"

declare str_nat.simps [simp del]

definition str_int :: "int \<Rightarrow> string" where
  "str_int i = (if i < 0 then CHR ''-'' # str_nat (nat (- i)) else str_nat (nat i))"

text \<open>
  Strings are byte strings here, so \<open>isnumeric\<close> is Python's \<^verbatim>\<open>str.isnumeric\<close> on ASCII
  text: non-empty and decimal digits only.
\<close>

definition isnumeric :: "string \<Rightarrow> bool" where
  "isnumeric u = (u \<noteq> [] \<and> list_all (\<lambda>c. c \<in> set ''0123456789'') u)"

definition is_hex :: "char \<Rightarrow> bool" where
  "is_hex c = (c \<in> set ''0123456789abcdefABCDEF'')"

fun match_groups :: "nat list \<Rightarrow> string \<Rightarrow> bool" where
  "match_groups [] u = False"
| "match_groups [n] u = (length u = n \<and> list_all is_hex u)"
| "match_groups (n # ns) u =
     (n < length u \<and> list_all is_hex (take n u) \<and> u ! n = CHR ''-''
      \<and> match_groups ns (drop (Suc n) u))"

text \<open>
  \<^verbatim>\<open>pattern_uuid.match(uid)\<close> for the pattern
  \<^verbatim>\<open>^[0-9a-fA-F]{8}-[0-9a-fA-F]{4}-[0-9a-fA-F]{4}-[0-9a-fA-F]{4}-[0-9a-fA-F]{12}$\<close>;
  Python's \<^verbatim>\<open>$\<close> also matches just before a newline that ends the string.
\<close>

definition pattern_uuid_match :: "string \<Rightarrow> bool" where
  "pattern_uuid_match u =
     (match_groups [8, 4, 4, 4, 12] u
      \<or> (u \<noteq> [] \<and> last u = CHR 0x0A \<and> match_groups [8, 4, 4, 4, 12] (butlast u)))"

section \<open>The document\<close>

text \<open>
  UIDs as the code holds them. A dictionary key of an element collection is a string or
  the \<^verbatim>\<open>UUID\<close> object that \<^verbatim>\<open>uuid.uuid4()\<close> returned (\<^verbatim>\<open>__get_uid_to_assign\<close> does not
  convert it to a string); \<open>UUID4 n\<close> stands for the object returned by the \<open>n\<close>-th call.
  A UID argument of the public interface is any (hashable) Python value.
\<close>

datatype pyuid = Str string | UUID4 nat

datatype uid_arg = UA_None | UA_int int | UA_str string | UA_uuid nat | UA_other

text \<open>The dictionary key that compares equal to an argument (a string never equals an
  integer or a UUID object).\<close>

fun key_of :: "uid_arg \<Rightarrow> pyuid option" where
  "key_of (UA_str u) = Some (Str u)"
| "key_of (UA_uuid n) = Some (UUID4 n)"
| "key_of a = None"

text \<open>
  Payloads come from \<^verbatim>\<open>vcd/types.py\<close>, whose text is not at hand. \<^verbatim>\<open>core.py\<close> reads
  of a payload its \<^verbatim>\<open>type.name\<close> and, of its \<^verbatim>\<open>data\<close> dictionary, the keys \<^verbatim>\<open>name\<close>,
  \<^verbatim>\<open>attributes\<close> and \<^verbatim>\<open>in_stream\<close>.
\<close>

text \<open>Modelled from the spec: the payload kinds of \<^verbatim>\<open>vcd/types.py\<close> (section 4.3).\<close>

datatype ObjectDataType = ODT_bbox | ODT_num | ODT_text | ODT_boolean | ODT_poly2d | ODT_vec

fun ObjectDataType_name :: "ObjectDataType \<Rightarrow> string" where
  "ObjectDataType_name ODT_bbox = ''bbox''"
| "ObjectDataType_name ODT_num = ''num''"
| "ObjectDataType_name ODT_text = ''text''"
| "ObjectDataType_name ODT_boolean = ''boolean''"
| "ObjectDataType_name ODT_poly2d = ''poly2d''"
| "ObjectDataType_name ODT_vec = ''vec''"

text \<open>Modelled from the spec: a nested attribute of a payload of \<^verbatim>\<open>vcd/types.py\<close>, a
  sub-payload of which \<^verbatim>\<open>core.py\<close> reads the name.\<close>

record attribute =
  attr_name :: string
  attr_val :: pyval

text \<open>Modelled from the spec: the \<^verbatim>\<open>data\<close> dictionary of a payload of \<^verbatim>\<open>vcd/types.py\<close>:
  a name, a value, optionally nested attributes grouped by kind name, and the optional
  key \<^verbatim>\<open>in_stream\<close> that \<^verbatim>\<open>core.py\<close> tests.\<close>

record data_dict =
  dd_name :: string
  dd_val :: pyval
  dd_attributes :: "(string \<times> attribute list) list option"
  dd_in_stream :: "string option"

text \<open>Modelled from the spec: a payload object of \<^verbatim>\<open>vcd/types.py\<close>, its kind
  (\<^verbatim>\<open>type\<close>) and its \<^verbatim>\<open>data\<close> dictionary.\<close>

record element_data =
  ed_type :: ObjectDataType
  ed_data :: data_dict

text \<open>An entry of \<^verbatim>\<open><type>_data_pointers\<close>.\<close>

record pointer =
  ptr_type :: string
  ptr_frame_intervals :: "fi_dict list"
  ptr_attributes :: "(string \<times> string) list option"

text \<open>
  An element of the root collections: a dictionary whose keys are all optional. The keys
  \<^verbatim>\<open><type>_data\<close> and \<^verbatim>\<open><type>_data_pointers\<close> carry the name of the collection's type.
\<close>

record element =
  el_name :: "string option"
  el_type :: "string option"
  el_frame_intervals :: "fi_dict list option"
  el_ontology_uid :: "string option"
  el_stream :: "string option"
  el_data :: "(string \<times> data_dict list) list option"
  el_data_pointers :: "(string \<times> pointer) list option"

definition empty_element :: element where
  "empty_element = \<lparr>el_name = None, el_type = None, el_frame_intervals = None,
     el_ontology_uid = None, el_stream = None, el_data = None, el_data_pointers = None\<rparr>"

text \<open>
  A frame: per element type present, the shadows of the elements (key
  \<^verbatim>\<open><type>s\<close>), and optionally \<^verbatim>\<open>frame_properties\<close>.
\<close>

type_synonym frame_element = "(string \<times> data_dict list) list option"

record frame =
  fr_elements :: "(ElementType \<times> (pyuid \<times> frame_element) list) list"
  fr_properties :: "(string \<times> pyval) list option"

definition empty_frame :: frame where
  "empty_frame = \<lparr>fr_elements = [], fr_properties = None\<rparr>"

text \<open>\<^verbatim>\<open>len(frame)\<close>: the number of keys of the frame's dictionary.\<close>

definition frame_len :: "frame \<Rightarrow> nat" where
  "frame_len fr = length (fr_elements fr) + (case fr_properties fr of None \<Rightarrow> 0 | Some _ \<Rightarrow> 1)"

text \<open>
  The stream map of the metadata. \<^verbatim>\<open>add_stream\<close> stores under the stream's name (a
  string); \<^verbatim>\<open>has_stream\<close> looks a \<^verbatim>\<open>StreamType\<close> member up. A member never equals a
  string, so the key type keeps the two apart.
\<close>

datatype stream_key = SK_str string | SK_member StreamType

record metadata =
  md_streams :: "(stream_key \<times> (string \<times> pyval) list) list option"

text \<open>
  The state of a \<^verbatim>\<open>VCD\<close> object: the keys of \<^verbatim>\<open>data['vcd']\<close> that the operations below
  use, and the attributes \<^verbatim>\<open>use_uuid\<close> and \<^verbatim>\<open>__lastUID\<close>. \<open>elements\<close> holds the root
  collections that exist (key \<^verbatim>\<open><type>s\<close>). \<open>uuid4_calls\<close> counts the calls of
  \<^verbatim>\<open>uuid.uuid4()\<close>. Documents are those built from \<^verbatim>\<open>VCD()\<close>, where the keys \<^verbatim>\<open>frames\<close>
  and \<^verbatim>\<open>frame_intervals\<close> always exist.
\<close>

record VCD =
  frames :: "(int \<times> frame) list"
  frame_intervals :: "fi_dict list"
  elements :: "(ElementType \<times> (pyuid \<times> element) list) list"
  ontologies :: "(string \<times> string) list option"
  metadata :: "metadata option"
  use_uuid :: bool
  lastUID :: "ElementType \<Rightarrow> int"
  uuid4_calls :: nat

text \<open>\<^verbatim>\<open>VCD()\<close>: the constructor without a file name, which calls \<^verbatim>\<open>reset\<close>.\<close>

definition VCD_init :: VCD where
  "VCD_init = \<lparr>frames = [], frame_intervals = [], elements = [], ontologies = None,
     metadata = None, use_uuid = False, lastUID = (\<lambda>t. - 1), uuid4_calls = 0\<rparr>"

text \<open>
  An operation returns its result or the exception it raised, and the state it leaves:
  what was mutated before an exception stays mutated.
\<close>

type_synonym 'a result = "(error + 'a) \<times> VCD"

definition then_do :: "'a result \<Rightarrow> ('a \<Rightarrow> VCD \<Rightarrow> 'b result) \<Rightarrow> 'b result" where
  "then_do r f = (case r of (Inl e, s) \<Rightarrow> (Inl e, s) | (Inr x, s) \<Rightarrow> f x s)"

section \<open>Private helpers of the class \<^verbatim>\<open>VCD\<close>\<close>

text \<open>The frame numbers of nested loops
  \<^verbatim>\<open>for fi in fis: for f in range(fi[0], fi[1]+1)\<close>, in order.\<close>

definition frame_numbers :: "(int \<times> int) list \<Rightarrow> int list" where
  "frame_numbers fis = concat (map (\<lambda>fi. [fst fi .. snd fi]) fis)"

definition has :: "VCD \<Rightarrow> ElementType \<Rightarrow> pyuid option \<Rightarrow> bool" where
  "has self element_type uid =
     (case map_of (elements self) element_type of
        None \<Rightarrow> False
      | Some els \<Rightarrow>
          (case uid of None \<Rightarrow> False
           | Some u \<Rightarrow> (case map_of els u of None \<Rightarrow> False | Some _ \<Rightarrow> True)))"

text \<open>\<^verbatim>\<open>get_element\<close>: the element, or \<^verbatim>\<open>None\<close> (with a warning).\<close>

definition get_element :: "VCD \<Rightarrow> ElementType \<Rightarrow> pyuid option \<Rightarrow> element option" where
  "get_element self element_type uid =
     (case map_of (elements self) element_type of
        None \<Rightarrow> None
      | Some els \<Rightarrow> (case uid of None \<Rightarrow> None | Some u \<Rightarrow> map_of els u))"

definition get_frame :: "VCD \<Rightarrow> int \<Rightarrow> frame option" where
  "get_frame self frame_num = map_of (frames self) frame_num"

definition get_ontology :: "VCD \<Rightarrow> string \<Rightarrow> string option" where
  "get_ontology self ont_uid =
     (case ontologies self of None \<Rightarrow> None | Some onts \<Rightarrow> map_of onts ont_uid)"

definition get_frame_intervals :: "VCD \<Rightarrow> FrameIntervals" where
  "get_frame_intervals self = FrameIntervals_init (FV_dicts (frame_intervals self))"

definition get_element_frame_intervals ::
  "VCD \<Rightarrow> ElementType \<Rightarrow> pyuid option \<Rightarrow> FrameIntervals" where
  "get_element_frame_intervals self element_type uid =
     (case get_element self element_type uid of
        None \<Rightarrow> FrameIntervals_init FV_None
      | Some e \<Rightarrow>
          (case el_frame_intervals e of
             None \<Rightarrow> FrameIntervals_init FV_None
           | Some ds \<Rightarrow> FrameIntervals_init (FV_dicts ds)))"

text \<open>
  \<^verbatim>\<open>has_stream\<close>. Without a stream map the function falls off its end and returns
  \<^verbatim>\<open>None\<close>. With one, \<^verbatim>\<open>StreamType[stream]\<close> raises \<^verbatim>\<open>KeyError\<close> unless \<^verbatim>\<open>stream\<close> is the
  name of a member, and the member found is then looked up among the declared names.
\<close>

definition has_stream :: "VCD \<Rightarrow> string \<Rightarrow> error + bool option" where
  "has_stream self stream =
     (case metadata self of
        None \<Rightarrow> Inr None
      | Some md \<Rightarrow>
          (case md_streams md of
             None \<Rightarrow> Inr None
           | Some streams \<Rightarrow>
               (case StreamType_getitem stream of
                  Inl e \<Rightarrow> Inl e
                | Inr stream_name \<Rightarrow>
                    Inr (Some (case map_of streams (SK_member stream_name) of
                                 None \<Rightarrow> False | Some _ \<Rightarrow> True)))))"

text \<open>Truth value of what \<^verbatim>\<open>has_stream\<close> returned.\<close>

definition truthy :: "bool option \<Rightarrow> bool" where
  "truthy r = (case r of None \<Rightarrow> False | Some b \<Rightarrow> b)"

text \<open>
  \<^verbatim>\<open>__get_uid_to_assign\<close>. The result starts as the empty string and stays so when the
  UID is refused with a warning.
\<close>

definition get_uid_to_assign :: "ElementType \<Rightarrow> uid_arg \<Rightarrow> VCD \<Rightarrow> pyuid \<times> VCD" where
  "get_uid_to_assign element_type uid self =
     (case uid of
        UA_None \<Rightarrow>
          (if use_uuid self
           then (UUID4 (uuid4_calls self), self\<lparr>uuid4_calls := Suc (uuid4_calls self)\<rparr>)
           else (Str (str_int (lastUID self element_type + 1)),
                 self\<lparr>lastUID := (lastUID self)(element_type := lastUID self element_type + 1)\<rparr>))
      | UA_int uid_number \<Rightarrow>
          (if uid_number > lastUID self element_type
           then (Str (str_int uid_number),
                 self\<lparr>lastUID := (lastUID self)(element_type := uid_number)\<rparr>)
           else (Str (str_int uid_number), self))
      | UA_str u \<Rightarrow>
          (if isnumeric u then (Str u, self)
           else if pattern_uuid_match u then (Str u, self\<lparr>use_uuid := True\<rparr>)
           else (Str [], self))
      | UA_uuid n \<Rightarrow> (Str [], self)
      | UA_other \<Rightarrow> (Str [], self))"

definition set_vcd_frame_intervals :: "FrameIntervals \<Rightarrow> VCD \<Rightarrow> VCD" where
  "set_vcd_frame_intervals fis self =
     (if \<not> FrameIntervals_empty fis then self\<lparr>frame_intervals := fis_dict fis\<rparr> else self)"

definition update_vcd_frame_intervals :: "FrameIntervals \<Rightarrow> VCD \<Rightarrow> VCD" where
  "update_vcd_frame_intervals fis self =
     (if \<not> FrameIntervals_empty fis
      then set_vcd_frame_intervals
             (FrameIntervals_union (FrameIntervals_init (FV_dicts (frame_intervals self))) fis) self
      else self)"

definition add_frame :: "int \<Rightarrow> VCD \<Rightarrow> VCD" where
  "add_frame frame_num self = self\<lparr>frames := setdefault frame_num empty_frame (frames self)\<rparr>"

text \<open>The body of the loop of \<^verbatim>\<open>__add_frames\<close> for one frame.\<close>

definition add_frame_entry :: "ElementType \<Rightarrow> pyuid \<Rightarrow> int \<Rightarrow> VCD \<Rightarrow> VCD" where
  "add_frame_entry element_type uid f self =
     (add_frame f self)\<lparr>frames :=
        AList.map_entry f
          (\<lambda>fr. fr\<lparr>fr_elements :=
             AList.map_entry element_type (setdefault uid None)
               (setdefault element_type [] (fr_elements fr))\<rparr>)
          (frames (add_frame f self))\<rparr>"

text \<open>
  \<^verbatim>\<open>__add_frames\<close>. Its third assertion, \<^verbatim>\<open>isinstance(uid, str)\<close>, fails for \<^verbatim>\<open>None\<close> and
  for a UUID object; it is evaluated before the interval is tested for emptiness.
\<close>

definition add_frames ::
  "FrameIntervals \<Rightarrow> ElementType \<Rightarrow> pyuid option \<Rightarrow> VCD \<Rightarrow> unit result" where
  "add_frames fis element_type uid self =
     (case uid of
        Some (Str u) \<Rightarrow>
          (if FrameIntervals_empty fis then (Inr (), self)
           else (Inr (), fold (add_frame_entry element_type (Str u))
                           (frame_numbers (fis_num fis)) self))
      | Some (UUID4 n) \<Rightarrow> (Inl AssertionError, self)
      | None \<Rightarrow> (Inl AssertionError, self))"

text \<open>\<^verbatim>\<open>__rm_frame\<close>: deletes the frame and takes its number out of the document-wide
  interval list.\<close>

definition rm_frame :: "int \<Rightarrow> VCD \<Rightarrow> VCD" where
  "rm_frame frame_num self =
     (case map_of (frames self) frame_num of
        None \<Rightarrow> self
      | Some _ \<Rightarrow>
          self\<lparr>frames := AList.delete frame_num (frames self),
               frame_intervals := rm_frame_from_frame_intervals (frame_intervals self) frame_num\<rparr>)"

text \<open>
  Step 3 of \<^verbatim>\<open>__create_update_element\<close> for one pointer: its interval becomes the
  intersection with the element's new interval, unless that intersection is empty.
\<close>

definition reshape_pointer :: "FrameIntervals \<Rightarrow> pointer \<Rightarrow> pointer" where
  "reshape_pointer fis edp =
     (let fis_int = FrameIntervals_intersection fis
                      (FrameIntervals_init (FV_dicts (ptr_frame_intervals edp)))
      in if \<not> FrameIntervals_empty fis_int
         then edp\<lparr>ptr_frame_intervals := fis_dict fis_int\<rparr>
         else edp)"

definition reshape_pointers :: "FrameIntervals \<Rightarrow> element \<Rightarrow> element" where
  "reshape_pointers fis e =
     (if \<not> FrameIntervals_empty fis
      then (case el_data_pointers e of
              None \<Rightarrow> e
            | Some edps \<Rightarrow>
                e\<lparr>el_data_pointers :=
                    Some (map (\<lambda>kv. (fst kv, reshape_pointer fis (snd kv))) edps)\<rparr>)
      else e)"

text \<open>Writing an element back into its collection (the code mutates the dictionary it
  holds a reference to).\<close>

definition put_element :: "ElementType \<Rightarrow> pyuid \<Rightarrow> element \<Rightarrow> VCD \<Rightarrow> VCD" where
  "put_element element_type uid e self =
     self\<lparr>elements :=
        AList.map_entry element_type (AList.update uid e)
          (setdefault element_type [] (elements self))\<rparr>"

text \<open>
  \<^verbatim>\<open>__create_update_element\<close>. An ontology reference is stored when \<^verbatim>\<open>get_ontology\<close>
  returns a true value (a non-empty URI). \<^verbatim>\<open>has_stream\<close> can raise; the fields set before
  it are then already written.
\<close>

definition create_update_element ::
  "ElementType \<Rightarrow> string option \<Rightarrow> string option \<Rightarrow> FrameIntervals \<Rightarrow> pyuid
   \<Rightarrow> string option \<Rightarrow> string option \<Rightarrow> VCD \<Rightarrow> unit result" where
  "create_update_element element_type name semantic_type fis uid ont_uid stream self =
     (let element = (case get_element self element_type (Some uid) of
                       None \<Rightarrow> empty_element | Some e \<Rightarrow> e);
          e1 = (case name of None \<Rightarrow> element | Some n \<Rightarrow> element\<lparr>el_name := Some n\<rparr>);
          e2 = (case semantic_type of None \<Rightarrow> e1 | Some t \<Rightarrow> e1\<lparr>el_type := Some t\<rparr>);
          e3 = (if \<not> FrameIntervals_empty fis
                then e2\<lparr>el_frame_intervals := Some (fis_dict fis)\<rparr> else e2);
          e4 = (case ont_uid of
                  None \<Rightarrow> e3
                | Some ou \<Rightarrow>
                    (case get_ontology self ou of
                       None \<Rightarrow> e3
                     | Some uri \<Rightarrow> if uri \<noteq> [] then e3\<lparr>el_ontology_uid := Some ou\<rparr> else e3))
      in case stream of
           None \<Rightarrow> (Inr (), put_element element_type uid (reshape_pointers fis e4) self)
         | Some st \<Rightarrow>
             (case has_stream self st of
                Inl err \<Rightarrow> (Inl err, put_element element_type uid e4 self)
              | Inr r \<Rightarrow>
                  (Inr (), put_element element_type uid
                     (reshape_pointers fis
                        (if truthy r then e4\<lparr>el_stream := Some st\<rparr> else e4)) self)))"

text \<open>
  Step 3.1.1 of \<^verbatim>\<open>__add_element\<close>: every frame of the new interval that the old one
  does not hold gets a shadow and is joined to the document-wide interval list. The
  loop passes \<^verbatim>\<open>uid\<close>, the caller's UID (a string or \<^verbatim>\<open>None\<close>).
\<close>

fun add_new_frames ::
  "ElementType \<Rightarrow> string option \<Rightarrow> FrameIntervals \<Rightarrow> int list \<Rightarrow> VCD \<Rightarrow> unit result" where
  "add_new_frames element_type uid fis_old [] self = (Inr (), self)"
| "add_new_frames element_type uid fis_old (f # fs) self =
     (if \<not> FrameIntervals_has_frame fis_old f
      then (case add_frames (FrameIntervals_init (FV_int f)) element_type (map_option Str uid) self of
              (Inl e, s) \<Rightarrow> (Inl e, s)
            | (Inr u, s) \<Rightarrow>
                add_new_frames element_type uid fis_old fs
                  (update_vcd_frame_intervals (FrameIntervals_init (FV_int f)) s))
      else add_new_frames element_type uid fis_old fs self)"

text \<open>
  The body of step 3.1.2 for one frame that the new interval no longer holds: the
  shadow is deleted, then the type's bucket if it is empty, then the frame if it is
  empty. Each of the three subscripts raises \<^verbatim>\<open>KeyError\<close> on a missing key.
\<close>

definition rm_shadow :: "ElementType \<Rightarrow> pyuid \<Rightarrow> int \<Rightarrow> VCD \<Rightarrow> unit result" where
  "rm_shadow element_type uid f self =
     (case map_of (frames self) f of
        None \<Rightarrow> (Inl KeyError, self)
      | Some fr \<Rightarrow>
          (case map_of (fr_elements fr) element_type of
             None \<Rightarrow> (Inl KeyError, self)
           | Some elements_in_frame \<Rightarrow>
               (case map_of elements_in_frame uid of
                  None \<Rightarrow> (Inl KeyError, self)
                | Some sh \<Rightarrow>
                    (if length (AList.delete uid elements_in_frame) = 0
                     then (let fr' = fr\<lparr>fr_elements := AList.delete element_type (fr_elements fr)\<rparr>;
                               s1 = self\<lparr>frames := AList.update f fr' (frames self)\<rparr>
                           in if frame_len fr' = 0 then (Inr (), rm_frame f s1) else (Inr (), s1))
                     else (Inr (), self\<lparr>frames :=
                             AList.update f
                               (fr\<lparr>fr_elements :=
                                  AList.update element_type (AList.delete uid elements_in_frame)
                                    (fr_elements fr)\<rparr>)
                               (frames self)\<rparr>)))))"

fun rm_old_frames ::
  "ElementType \<Rightarrow> string option \<Rightarrow> FrameIntervals \<Rightarrow> int list \<Rightarrow> VCD \<Rightarrow> unit result" where
  "rm_old_frames element_type uid fis_new [] self = (Inr (), self)"
| "rm_old_frames element_type uid fis_new (f # fs) self =
     (if \<not> FrameIntervals_has_frame fis_new f
      then (case uid of
              None \<Rightarrow> (Inl KeyError, self)
            | Some u \<Rightarrow>
                (case rm_shadow element_type (Str u) f self of
                   (Inl e, s) \<Rightarrow> (Inl e, s)
                 | (Inr r, s) \<Rightarrow> rm_old_frames element_type uid fis_new fs s))
      else rm_old_frames element_type uid fis_new fs self)"

text \<open>The UID formats \<^verbatim>\<open>__add_element\<close> accepts for \<^verbatim>\<open>uid_\<close> and \<^verbatim>\<open>ont_uid_\<close>, and
  the string it turns them into.\<close>

fun uid_supported :: "uid_arg \<Rightarrow> bool" where
  "uid_supported UA_None = True"
| "uid_supported (UA_int n) = True"
| "uid_supported (UA_str u) = True"
| "uid_supported a = False"

fun uid_as_str :: "uid_arg \<Rightarrow> string option" where
  "uid_as_str (UA_int n) = Some (str_int n)"
| "uid_as_str (UA_str u) = Some u"
| "uid_as_str a = None"

text \<open>\<^verbatim>\<open>__add_element\<close>, the upsert shared by the add and modify operations. It returns
  the UID assigned, or \<^verbatim>\<open>None\<close> when a UID argument has an unsupported format. The
  parameters \<^verbatim>\<open>uid_\<close> and \<^verbatim>\<open>ont_uid_\<close> are written \<open>uid'\<close> and \<open>ont_uid'\<close>.\<close>

definition add_element ::
  "ElementType \<Rightarrow> string option \<Rightarrow> string option \<Rightarrow> FrameIntervals \<Rightarrow> uid_arg \<Rightarrow> uid_arg
   \<Rightarrow> string option \<Rightarrow> VCD \<Rightarrow> pyuid option result" where
  "add_element element_type name semantic_type fis uid' ont_uid' stream self =
     (if \<not> uid_supported uid' then (Inr None, self)
      else if \<not> uid_supported ont_uid' then (Inr None, self)
      else
        (let uid = uid_as_str uid';
             ont_uid = uid_as_str ont_uid';
             element_exists = has self element_type (map_option Str uid);
             ua = get_uid_to_assign element_type
                    (case uid of None \<Rightarrow> UA_None | Some u \<Rightarrow> UA_str u) self;
             uid_to_assign = fst ua;
             s1 = snd ua;
             fis_old = get_element_frame_intervals s1 element_type (map_option Str uid)
         in then_do
              (create_update_element element_type name semantic_type fis uid_to_assign
                 ont_uid stream s1)
              (\<lambda>r s2.
                 if \<not> FrameIntervals_empty fis
                 then (if element_exists
                       then then_do
                              (add_new_frames element_type uid fis_old
                                 (frame_numbers (fis_num fis)) s2)
                              (\<lambda>r s3. then_do
                                 (rm_old_frames element_type uid fis
                                    (frame_numbers (fis_num fis_old)) s3)
                                 (\<lambda>r s4. (Inr (Some uid_to_assign), s4)))
                       else then_do (add_frames fis element_type (Some uid_to_assign) s2)
                              (\<lambda>r s3. (Inr (Some uid_to_assign),
                                        update_vcd_frame_intervals fis s3)))
                 else (let vcd_frame_intervals = get_frame_intervals s2
                       in if FrameIntervals_empty vcd_frame_intervals
                          then then_do
                                 (add_frames vcd_frame_intervals element_type
                                    (Some uid_to_assign) s2)
                                 (\<lambda>r s3. (Inr (Some uid_to_assign), s3))
                          else (Inr (Some uid_to_assign), s2)))))"

text \<open>\<^verbatim>\<open>__modify_element\<close> calls \<^verbatim>\<open>__add_element\<close> and has no \<^verbatim>\<open>return\<close> statement: it
  returns \<^verbatim>\<open>None\<close>, and so does every \<^verbatim>\<open>modify_<type>\<close>.\<close>

definition modify_element ::
  "ElementType \<Rightarrow> uid_arg \<Rightarrow> string option \<Rightarrow> string option \<Rightarrow> FrameIntervals \<Rightarrow> uid_arg
   \<Rightarrow> string option \<Rightarrow> VCD \<Rightarrow> pyuid option result" where
  "modify_element element_type uid name semantic_type fis ont_uid stream self =
     then_do (add_element element_type name semantic_type fis uid ont_uid stream self)
       (\<lambda>r s. (Inr None, s))"

subsection \<open>Payloads\<close>

text \<open>The search for a payload of the same name in a list: the first one found is
  replaced, otherwise the payload is appended.\<close>

fun put_data :: "data_dict \<Rightarrow> data_dict list \<Rightarrow> data_dict list" where
  "put_data d [] = [d]"
| "put_data d (x # xs) = (if dd_name x = dd_name d then d # xs else x # put_data d xs)"

definition store_data :: "element_data \<Rightarrow> frame_element \<Rightarrow> frame_element" where
  "store_data ed bucket =
     Some (AList.map_entry (ObjectDataType_name (ed_type ed)) (put_data (ed_data ed))
             (setdefault (ObjectDataType_name (ed_type ed)) []
                (case bucket of None \<Rightarrow> [] | Some b \<Rightarrow> b)))"

text \<open>The dynamic branch of \<^verbatim>\<open>__create_update_element_data\<close> for one frame.\<close>

definition set_frame_data :: "ElementType \<Rightarrow> pyuid \<Rightarrow> element_data \<Rightarrow> int \<Rightarrow> VCD \<Rightarrow> VCD" where
  "set_frame_data element_type uid ed f self =
     (let s1 = (case get_frame self f of None \<Rightarrow> add_frame f self | Some fr \<Rightarrow> self)
      in s1\<lparr>frames :=
           AList.map_entry f
             (\<lambda>fr. fr\<lparr>fr_elements :=
                AList.map_entry element_type
                  (\<lambda>m. AList.map_entry uid (store_data ed) (setdefault uid None m))
                  (setdefault element_type [] (fr_elements fr))\<rparr>)
             (frames s1)\<rparr>)"

definition create_update_element_data ::
  "ElementType \<Rightarrow> pyuid \<Rightarrow> element_data \<Rightarrow> FrameIntervals \<Rightarrow> VCD \<Rightarrow> unit result" where
  "create_update_element_data element_type uid ed fis self =
     (case (case dd_in_stream (ed_data ed) of
              None \<Rightarrow> Inr True
            | Some st \<Rightarrow> (case has_stream self st of Inl e \<Rightarrow> Inl e | Inr r \<Rightarrow> Inr (truthy r))) of
        Inl e \<Rightarrow> (Inl e, self)
      | Inr declared \<Rightarrow>
          (if \<not> declared then (Inr (), self)
           else if FrameIntervals_empty fis
           then (case get_element self element_type (Some uid) of
                   None \<Rightarrow> (Inr (), self)
                 | Some element \<Rightarrow>
                     (Inr (), put_element element_type uid
                                (element\<lparr>el_data := store_data ed (el_data element)\<rparr>) self))
           else (Inr (), fold (set_frame_data element_type uid ed)
                           (frame_numbers (fis_num fis)) self)))"

text \<open>The attribute map of a pointer: attribute name to attribute kind, the last write
  winning.\<close>

definition flatten_attributes :: "(string \<times> attribute list) list \<Rightarrow> (string \<times> string) list" where
  "flatten_attributes attrs =
     fold (\<lambda>kv. AList.update (fst kv) (snd kv))
       (concat (map (\<lambda>ta. map (\<lambda>a. (attr_name a, fst ta)) (snd ta)) attrs)) []"

definition create_update_element_data_pointers ::
  "ElementType \<Rightarrow> pyuid \<Rightarrow> element_data \<Rightarrow> FrameIntervals \<Rightarrow> VCD \<Rightarrow> unit result" where
  "create_update_element_data_pointers element_type uid ed fis self =
     (case get_element self element_type (Some uid) of
        None \<Rightarrow> (Inl KeyError, self)
      | Some element \<Rightarrow>
          (Inr (), put_element element_type uid
             (element\<lparr>el_data_pointers :=
                Some (AList.update (dd_name (ed_data ed))
                        \<lparr>ptr_type = ObjectDataType_name (ed_type ed),
                         ptr_frame_intervals = fis_dict fis,
                         ptr_attributes = map_option flatten_attributes
                                            (dd_attributes (ed_data ed))\<rparr>
                        (case el_data_pointers element of None \<Rightarrow> [] | Some m \<Rightarrow> m))\<rparr>)
             self))"

text \<open>The UID argument as \<^verbatim>\<open>__add_element\<close> receives it back from
  \<^verbatim>\<open>__add_element_data\<close>, and a stored ontology UID likewise.\<close>

fun uid_arg_of_key :: "pyuid \<Rightarrow> uid_arg" where
  "uid_arg_of_key (Str u) = UA_str u"
| "uid_arg_of_key (UUID4 n) = UA_uuid n"

definition add_element_data ::
  "ElementType \<Rightarrow> uid_arg \<Rightarrow> element_data \<Rightarrow> FrameIntervals \<Rightarrow> VCD \<Rightarrow> unit result" where
  "add_element_data element_type uid ed fis self =
     (if \<not> has self element_type (key_of uid) then (Inr (), self)
      else
        (case key_of uid of
           None \<Rightarrow> (Inl TypeError, self)
         | Some k \<Rightarrow>
             then_do
               (if \<not> FrameIntervals_empty fis
                then (case get_element self element_type (Some k) of
                        None \<Rightarrow> (Inl TypeError, self)
                      | Some element \<Rightarrow>
                          (case el_name element of
                             None \<Rightarrow> (Inl KeyError, self)
                           | Some name \<Rightarrow>
                               (case el_type element of
                                  None \<Rightarrow> (Inl KeyError, self)
                                | Some semantic_type \<Rightarrow>
                                    add_element element_type (Some name) (Some semantic_type)
                                      (FrameIntervals_union
                                         (get_element_frame_intervals self element_type (Some k)) fis)
                                      (uid_arg_of_key k)
                                      (case el_ontology_uid element of
                                         None \<Rightarrow> UA_None | Some ou \<Rightarrow> UA_str ou)
                                      (el_stream element) self)))
                else (Inr None, self))
               (\<lambda>r s1. then_do (create_update_element_data element_type k ed fis s1)
                  (\<lambda>r s2. create_update_element_data_pointers element_type k ed fis s2))))"

section \<open>Public interface\<close>

subsection \<open>Adding and modifying elements\<close>

definition add_object ::
  "string \<Rightarrow> string \<Rightarrow> frame_value \<Rightarrow> uid_arg \<Rightarrow> uid_arg \<Rightarrow> string option \<Rightarrow> VCD
   \<Rightarrow> pyuid option result" where
  "add_object name semantic_type frame_value uid ont_uid stream self =
     add_element ET_object (Some name) (Some semantic_type) (FrameIntervals_init frame_value)
       uid ont_uid stream self"

definition add_action ::
  "string \<Rightarrow> string \<Rightarrow> frame_value \<Rightarrow> uid_arg \<Rightarrow> uid_arg \<Rightarrow> string option \<Rightarrow> VCD
   \<Rightarrow> pyuid option result" where
  "add_action name semantic_type frame_value uid ont_uid stream self =
     add_element ET_action (Some name) (Some semantic_type) (FrameIntervals_init frame_value)
       uid ont_uid stream self"

definition add_event ::
  "string \<Rightarrow> string \<Rightarrow> frame_value \<Rightarrow> uid_arg \<Rightarrow> uid_arg \<Rightarrow> string option \<Rightarrow> VCD
   \<Rightarrow> pyuid option result" where
  "add_event name semantic_type frame_value uid ont_uid stream self =
     add_element ET_event (Some name) (Some semantic_type) (FrameIntervals_init frame_value)
       uid ont_uid stream self"

definition add_context ::
  "string \<Rightarrow> string \<Rightarrow> frame_value \<Rightarrow> uid_arg \<Rightarrow> uid_arg \<Rightarrow> string option \<Rightarrow> VCD
   \<Rightarrow> pyuid option result" where
  "add_context name semantic_type frame_value uid ont_uid stream self =
     add_element ET_context (Some name) (Some semantic_type) (FrameIntervals_init frame_value)
       uid ont_uid stream self"

definition add_relation ::
  "string \<Rightarrow> string \<Rightarrow> frame_value \<Rightarrow> uid_arg \<Rightarrow> uid_arg \<Rightarrow> VCD \<Rightarrow> pyuid option result" where
  "add_relation name semantic_type frame_value uid ont_uid self =
     add_element ET_relation (Some name) (Some semantic_type) (FrameIntervals_init frame_value)
       uid ont_uid None self"


definition modify_action ::
  "uid_arg \<Rightarrow> string option \<Rightarrow> string option \<Rightarrow> frame_value \<Rightarrow> uid_arg \<Rightarrow> string option \<Rightarrow> VCD
   \<Rightarrow> pyuid option result" where
  "modify_action uid name semantic_type frame_value ont_uid stream self =
     modify_element ET_action uid name semantic_type (FrameIntervals_init frame_value)
       ont_uid stream self"

definition modify_event ::
  "uid_arg \<Rightarrow> string option \<Rightarrow> string option \<Rightarrow> frame_value \<Rightarrow> uid_arg \<Rightarrow> string option \<Rightarrow> VCD
   \<Rightarrow> pyuid option result" where
  "modify_event uid name semantic_type frame_value ont_uid stream self =
     modify_element ET_event uid name semantic_type (FrameIntervals_init frame_value)
       ont_uid stream self"

definition modify_context ::
  "uid_arg \<Rightarrow> string option \<Rightarrow> string option \<Rightarrow> frame_value \<Rightarrow> uid_arg \<Rightarrow> string option \<Rightarrow> VCD
   \<Rightarrow> pyuid option result" where
  "modify_context uid name semantic_type frame_value ont_uid stream self =
     modify_element ET_context uid name semantic_type (FrameIntervals_init frame_value)
       ont_uid stream self"

definition modify_relation ::
  "uid_arg \<Rightarrow> string option \<Rightarrow> string option \<Rightarrow> frame_value \<Rightarrow> uid_arg \<Rightarrow> string option \<Rightarrow> VCD
   \<Rightarrow> pyuid option result" where
  "modify_relation uid name semantic_type frame_value ont_uid stream self =
     modify_element ET_relation uid name semantic_type (FrameIntervals_init frame_value)
       ont_uid stream self"

subsection \<open>Attaching payloads\<close>

definition add_object_data :: "uid_arg \<Rightarrow> element_data \<Rightarrow> frame_value \<Rightarrow> VCD \<Rightarrow> unit result" where
  "add_object_data uid object_data frame_value self =
     add_element_data ET_object uid object_data (FrameIntervals_init frame_value) self"

definition add_action_data :: "uid_arg \<Rightarrow> element_data \<Rightarrow> frame_value \<Rightarrow> VCD \<Rightarrow> unit result" where
  "add_action_data uid action_data frame_value self =
     add_element_data ET_action uid action_data (FrameIntervals_init frame_value) self"

text \<open>\<^verbatim>\<open>add_event_data\<close> names the element type \<^verbatim>\<open>ElementType.evevt\<close>; the attribute is
  looked up first, when the arguments of the inner call are evaluated.\<close>

definition add_event_data :: "uid_arg \<Rightarrow> element_data \<Rightarrow> frame_value \<Rightarrow> VCD \<Rightarrow> unit result" where
  "add_event_data uid event_data frame_value self =
     (case ElementType_attr ''evevt'' of
        Inl e \<Rightarrow> (Inl e, self)
      | Inr element_type \<Rightarrow>
          add_element_data element_type uid event_data (FrameIntervals_init frame_value) self)"

definition add_context_data :: "uid_arg \<Rightarrow> element_data \<Rightarrow> frame_value \<Rightarrow> VCD \<Rightarrow> unit result" where
  "add_context_data uid context_data frame_value self =
     add_element_data ET_context uid context_data (FrameIntervals_init frame_value) self"

subsection \<open>Ontologies, streams and frame properties\<close>

text \<open>\<^verbatim>\<open>add_ontology\<close> returns the new UID, or \<^verbatim>\<open>None\<close> for a URI already registered.\<close>

definition add_ontology :: "string \<Rightarrow> VCD \<Rightarrow> string option \<times> VCD" where
  "add_ontology ontology_name self =
     (let onts = (case ontologies self of None \<Rightarrow> [] | Some m \<Rightarrow> m)
      in if list_ex (\<lambda>kv. snd kv = ontology_name) onts
         then (None, self\<lparr>ontologies := Some onts\<rparr>)
         else (Some (str_int (int (length onts))),
               self\<lparr>ontologies :=
                 Some (AList.update (str_int (int (length onts))) ontology_name onts)\<rparr>))"

text \<open>The \<^verbatim>\<open>stream_type\<close> argument of \<^verbatim>\<open>add_stream\<close>: a member, a string, or anything
  else (the stream is then declared with an empty dictionary).\<close>

datatype stream_type_arg = STA_member StreamType | STA_str string | STA_other

definition add_stream :: "string \<Rightarrow> string \<Rightarrow> string \<Rightarrow> stream_type_arg \<Rightarrow> VCD \<Rightarrow> VCD" where
  "add_stream stream_name uri description stream_type self =
     (let streams = setdefault (SK_str stream_name) []
                      (case metadata self of
                         None \<Rightarrow> []
                       | Some md \<Rightarrow> (case md_streams md of None \<Rightarrow> [] | Some m \<Rightarrow> m))
      in self\<lparr>metadata := Some \<lparr>md_streams = Some
           (case stream_type of
              STA_member t \<Rightarrow>
                AList.update (SK_str stream_name)
                  [(''description'', V_str description), (''uri'', V_str uri),
                   (''type'', V_str (StreamType_name t))] streams
            | STA_str t \<Rightarrow>
                AList.update (SK_str stream_name)
                  [(''description'', V_str description), (''uri'', V_str uri),
                   (''type'', V_str t)] streams
            | STA_other \<Rightarrow> streams)\<rparr>\<rparr>)"

text \<open>The dictionary stored under a key of a dictionary, empty when the key is absent
  (what \<^verbatim>\<open>setdefault(key, dict())\<close> returns; the interface stores only dictionaries under
  the keys read this way).\<close>

definition dict_at :: "string \<Rightarrow> (string \<times> pyval) list \<Rightarrow> (string \<times> pyval) list" where
  "dict_at k d = (case map_of d k of Some (V_dict x) \<Rightarrow> x | _ \<Rightarrow> [])"

definition update_opt ::
  "(string \<times> pyval) list \<Rightarrow> (string \<times> pyval) list option \<Rightarrow> (string \<times> pyval) list" where
  "update_opt d other = (case other of None \<Rightarrow> d | Some x \<Rightarrow> dict_update d x)"

definition frame_properties_of :: "frame \<Rightarrow> (string \<times> pyval) list" where
  "frame_properties_of fr = (case fr_properties fr of None \<Rightarrow> [] | Some fp \<Rightarrow> fp)"

definition add_frame_properties ::
  "int \<Rightarrow> string option \<Rightarrow> (string \<times> pyval) list option \<Rightarrow> VCD \<Rightarrow> VCD" where
  "add_frame_properties frame_num timestamp properties self =
     (add_frame frame_num self)\<lparr>frames :=
        AList.map_entry frame_num
          (\<lambda>fr. fr\<lparr>fr_properties := Some
             (update_opt
                (case timestamp of
                   None \<Rightarrow> frame_properties_of fr
                 | Some t \<Rightarrow> AList.update ''timestamp'' (V_str t) (frame_properties_of fr))
                properties)\<rparr>)
          (frames (add_frame frame_num self))\<rparr>"

text \<open>\<^verbatim>\<open>add_odometry\<close>; the second argument is the \<^verbatim>\<open>data\<close> dictionary of the
  \<^verbatim>\<open>types.Odometry\<close> object.\<close>

definition add_odometry :: "int \<Rightarrow> (string \<times> pyval) list \<Rightarrow> VCD \<Rightarrow> VCD" where
  "add_odometry frame_num odometry self =
     (add_frame frame_num self)\<lparr>frames :=
        AList.map_entry frame_num
          (\<lambda>fr. fr\<lparr>fr_properties := Some (dict_update (frame_properties_of fr) odometry)\<rparr>)
          (frames (add_frame frame_num self))\<rparr>"

text \<open>Modelled from the spec: \<^verbatim>\<open>types.StreamSync\<close> of \<^verbatim>\<open>vcd/types.py\<close>, of which
  \<^verbatim>\<open>core.py\<close> reads the document's frame number \<^verbatim>\<open>frame_vcd\<close> and the dictionary
  \<^verbatim>\<open>data\<close>.\<close>

record StreamSync =
  frame_vcd :: "int option"
  sync_data :: "(string \<times> pyval) list"

text \<open>The four updates of a \<^verbatim>\<open>stream_properties\<close> dictionary; the synchronisation data
  is merged only when it is a non-empty dictionary.\<close>

definition merge_stream_properties ::
  "(string \<times> pyval) list \<Rightarrow> (string \<times> pyval) list option \<Rightarrow> (string \<times> pyval) list option
   \<Rightarrow> (string \<times> pyval) list option \<Rightarrow> StreamSync option \<Rightarrow> (string \<times> pyval) list" where
  "merge_stream_properties d properties intrinsics extrinsics stream_sync =
     (let d3 = update_opt (update_opt (update_opt d properties) intrinsics) extrinsics
      in case stream_sync of
           None \<Rightarrow> d3
         | Some ss \<Rightarrow> if sync_data ss \<noteq> [] then dict_update d3 (sync_data ss) else d3)"

text \<open>\<^verbatim>\<open>add_stream_properties\<close>; \<open>intrinsics\<close> and \<open>extrinsics\<close> are the \<^verbatim>\<open>data\<close>
  dictionaries of the objects passed.\<close>

definition add_stream_properties ::
  "string \<Rightarrow> (string \<times> pyval) list option \<Rightarrow> (string \<times> pyval) list option
   \<Rightarrow> (string \<times> pyval) list option \<Rightarrow> StreamSync option \<Rightarrow> VCD \<Rightarrow> VCD" where
  "add_stream_properties stream_name properties intrinsics extrinsics stream_sync self =
     (if intrinsics = None \<and> extrinsics = None \<and> properties = None \<and> stream_sync = None
      then self
      else
        (case metadata self of
           None \<Rightarrow> self
         | Some md \<Rightarrow>
             (case md_streams md of
                None \<Rightarrow> self
              | Some streams \<Rightarrow>
                  (case map_of streams (SK_str stream_name) of
                     None \<Rightarrow> self
                   | Some sd \<Rightarrow>
                       (case (case stream_sync of None \<Rightarrow> None | Some ss \<Rightarrow> frame_vcd ss) of
                          None \<Rightarrow>
                            self\<lparr>metadata := Some (md\<lparr>md_streams := Some
                              (AList.update (SK_str stream_name)
                                 (AList.update ''stream_properties''
                                    (V_dict (merge_stream_properties
                                       (dict_at ''stream_properties'' sd)
                                       properties intrinsics extrinsics stream_sync)) sd)
                                 streams)\<rparr>)\<rparr>
                        | Some frame_num \<Rightarrow>
                            (add_frame frame_num self)\<lparr>frames :=
                               AList.map_entry frame_num
                                 (\<lambda>fr. fr\<lparr>fr_properties := Some
                                    (let fp = frame_properties_of fr;
                                         sts = dict_at ''streams'' fp;
                                         st = dict_at stream_name sts
                                     in AList.update ''streams''
                                          (V_dict (AList.update stream_name
                                             (V_dict (AList.update ''stream_properties''
                                                (V_dict (merge_stream_properties
                                                   (dict_at ''stream_properties'' st)
                                                   properties intrinsics extrinsics stream_sync))
                                                st))
                                             sts))
                                          fp)\<rparr>)
                                 (frames (add_frame frame_num self))\<rparr>)))))"

subsection \<open>Removing elements\<close>

text \<open>
  One pass of the inner loop of \<^verbatim>\<open>rm_element\<close>: the two subscripts raise \<^verbatim>\<open>KeyError\<close> on
  a missing frame or bucket; an empty frame is deleted from the frame map and the
  document-wide interval list is left as it is.
\<close>

definition rm_element_frame :: "ElementType \<Rightarrow> pyuid \<Rightarrow> int \<Rightarrow> VCD \<Rightarrow> unit result" where
  "rm_element_frame element_type uid frame_num self =
     (case map_of (frames self) frame_num of
        None \<Rightarrow> (Inl KeyError, self)
      | Some fr \<Rightarrow>
          (case map_of (fr_elements fr) element_type of
             None \<Rightarrow> (Inl KeyError, self)
           | Some elements_in_frame \<Rightarrow>
               (if length (AList.delete uid elements_in_frame) = 0
                then (let fr' = fr\<lparr>fr_elements := AList.delete element_type (fr_elements fr)\<rparr>
                      in if frame_len fr' = 0
                         then (Inr (), self\<lparr>frames := AList.delete frame_num (frames self)\<rparr>)
                         else (Inr (), self\<lparr>frames := AList.update frame_num fr' (frames self)\<rparr>))
                else (Inr (), self\<lparr>frames :=
                        AList.update frame_num
                          (fr\<lparr>fr_elements :=
                             AList.update element_type (AList.delete uid elements_in_frame)
                               (fr_elements fr)\<rparr>)
                          (frames self)\<rparr>))))"

fun rm_element_frames :: "ElementType \<Rightarrow> pyuid \<Rightarrow> int list \<Rightarrow> VCD \<Rightarrow> unit result" where
  "rm_element_frames element_type uid [] self = (Inr (), self)"
| "rm_element_frames element_type uid (f # fs) self =
     (case rm_element_frame element_type uid f self of
        (Inl e, s) \<Rightarrow> (Inl e, s)
      | (Inr r, s) \<Rightarrow> rm_element_frames element_type uid fs s)"

text \<open>
  \<^verbatim>\<open>rm_element\<close>. The first statement subscripts the root collection of the type, the
  loop header subscripts the element with \<^verbatim>\<open>'frame_intervals'\<close>; both raise \<^verbatim>\<open>KeyError\<close>
  on a missing key.
\<close>

definition rm_element :: "ElementType \<Rightarrow> uid_arg \<Rightarrow> VCD \<Rightarrow> unit result" where
  "rm_element element_type uid self =
     (case map_of (elements self) element_type of
        None \<Rightarrow> (Inl KeyError, self)
      | Some els \<Rightarrow>
          (if \<not> has self element_type (key_of uid) then (Inr (), self)
           else
             (case key_of uid of
                None \<Rightarrow> (Inl KeyError, self)
              | Some k \<Rightarrow>
                  (case map_of els k of
                     None \<Rightarrow> (Inl KeyError, self)
                   | Some element \<Rightarrow>
                       (case el_frame_intervals element of
                          None \<Rightarrow> (Inl KeyError, self)
                        | Some fis \<Rightarrow>
                            then_do
                              (rm_element_frames element_type k
                                 (frame_numbers (map (\<lambda>fi. (frame_start fi, frame_end fi)) fis)) self)
                              (\<lambda>r s. (Inr (), s\<lparr>elements :=
                                         AList.map_entry element_type (AList.delete k)
                                           (elements s)\<rparr>)))))))"

definition rm_object :: "uid_arg \<Rightarrow> VCD \<Rightarrow> unit result" where
  "rm_object uid self = rm_element ET_object uid self"

definition rm_action :: "uid_arg \<Rightarrow> VCD \<Rightarrow> unit result" where
  "rm_action uid self = rm_element ET_action uid self"

definition rm_event :: "uid_arg \<Rightarrow> VCD \<Rightarrow> unit result" where
  "rm_event uid self = rm_element ET_event uid self"

definition rm_context :: "uid_arg \<Rightarrow> VCD \<Rightarrow> unit result" where
  "rm_context uid self = rm_element ET_context uid self"

definition rm_relation :: "uid_arg \<Rightarrow> VCD \<Rightarrow> unit result" where
  "rm_relation uid self = rm_element ET_relation uid self"




section \<open>Properties of the frame-interval algebra\<close>

lemma canonical_sorted: "canonical fis \<Longrightarrow> sorted (map frame_start fis)"
  by (induction fis rule: canonical.induct) auto

lemma merge_sorted_canonical_id: "canonical fis \<Longrightarrow> merge_sorted fis = fis"
  by (induction fis rule: canonical.induct) auto

lemma merge_sorted_head:
  "\<exists>c cs. merge_sorted (b # rest) = c # cs \<and> frame_start c = frame_start b"
proof (induction rest arbitrary: b)
  case Nil
  show ?case by simp
next
  case (Cons r rest)
  show ?case
  proof (cases "frame_start r \<le> frame_end b + 1")
    case True
    from Cons [of "FI (frame_start b) (max (frame_end b) (frame_end r))"] True
    show ?thesis by simp
  next
    case False
    then show ?thesis by simp
  qed
qed

lemma canonical_Cons:
  "canonical (b # rest) \<Longrightarrow> frame_start a \<le> frame_start b \<Longrightarrow> frame_end a + 1 < frame_start b
   \<Longrightarrow> canonical (a # b # rest)"
  by simp

lemma merge_sorted_canonical:
  "sorted (map frame_start fis) \<Longrightarrow> canonical (merge_sorted fis)"
proof (induction fis rule: merge_sorted.induct)
  case (1 a b rest)
  show ?case
  proof (cases "frame_start b \<le> frame_end a + 1")
    case True
    with 1 show ?thesis by simp
  next
    case False
    obtain c cs where c: "merge_sorted (b # rest) = c # cs" "frame_start c = frame_start b"
      using merge_sorted_head by blast
    from 1 False have "canonical (merge_sorted (b # rest))" by simp
    with c 1(3) False show ?thesis by simp
  qed
qed simp_all

lemma fuse_canonical: "canonical (fuse_frame_intervals fis)"
  unfolding fuse_frame_intervals_def by (rule merge_sorted_canonical) simp

lemma fuse_canonical_id: "canonical fis \<Longrightarrow> fuse_frame_intervals fis = fis"
  unfolding fuse_frame_intervals_def
  by (simp add: canonical_sorted sort_key_id_if_sorted merge_sorted_canonical_id)

text \<open>
  Claim C8. \<open>fuse\<close> is idempotent: on an interval list that is already canonical (sorted,
  disjoint, not contiguous) it returns the same list, and fusing twice is fusing once;
  the contiguous list \<open>[(0,5),(6,10)]\<close> fuses to \<open>[(0,10)]\<close>, the gapped list
  \<open>[(0,5),(7,10)]\<close> is returned unchanged. The same holds through the constructor of
  \<^verbatim>\<open>FrameIntervals\<close>, which fuses a list argument.
\<close>

theorem fuse_idempotent:
  "(canonical fis \<longrightarrow> fuse_frame_intervals fis = fis)
   \<and> fuse_frame_intervals (fuse_frame_intervals fis) = fuse_frame_intervals fis
   \<and> fuse_frame_intervals [FI 0 5, FI 6 10] = [FI 0 10]
   \<and> fuse_frame_intervals [FI 0 5, FI 7 10] = [FI 0 5, FI 7 10]
   \<and> fis_num (FrameIntervals_init (FV_tuples [(0, 5), (6, 10)])) = [(0, 10)]
   \<and> fis_num (FrameIntervals_init (FV_tuples [(0, 5), (7, 10)])) = [(0, 5), (7, 10)]"
proof -
  have a: "canonical fis \<longrightarrow> fuse_frame_intervals fis = fis"
    by (simp add: fuse_canonical_id)
  have b: "fuse_frame_intervals (fuse_frame_intervals fis) = fuse_frame_intervals fis"
    by (rule fuse_canonical_id) (rule fuse_canonical)
  have c: "fuse_frame_intervals [FI 0 5, FI 6 10] = [FI 0 10]"
    by (simp add: fuse_frame_intervals_def)
  have d: "fuse_frame_intervals [FI 0 5, FI 7 10] = [FI 0 5, FI 7 10]"
    by (simp add: fuse_frame_intervals_def)
  have e: "fis_num (FrameIntervals_init (FV_tuples [(0, 5), (6, 10)])) = [(0, 10)]"
    by (simp add: FrameIntervals_of_dicts_def as_frame_intervals_array_dict_def
        as_frame_intervals_array_tuples_def c)
  have f: "fis_num (FrameIntervals_init (FV_tuples [(0, 5), (7, 10)])) = [(0, 5), (7, 10)]"
    by (simp add: FrameIntervals_of_dicts_def as_frame_intervals_array_dict_def
        as_frame_intervals_array_tuples_def d)
  from a b c d e f show ?thesis by blast
qed

theorem fuse_idempotent_witness:
  "canonical [FI 0 5, FI 7 10] \<and> fuse_frame_intervals [FI 0 5, FI 7 10] = [FI 0 5, FI 7 10]"
  using fuse_idempotent [of "[FI 0 5, FI 7 10]"] by simp

subsection \<open>The frames an interval list covers\<close>


























section \<open>Properties of the element store\<close>

lemma map_of_setdefault_same:
  "map_of (setdefault k v d) k = Some (case map_of d k of None \<Rightarrow> v | Some x \<Rightarrow> x)"
  by (auto simp: setdefault_def map_add_def split: option.splits)

lemma get_element_put_element:
  "get_element (put_element element_type uid e self) element_type (Some uid) = Some e"
  by (simp add: get_element_def put_element_def map_of_map_entry map_of_setdefault_same
      update_conv')


lemma reshape_pointers_fields:
  "el_frame_intervals (reshape_pointers fis e) = el_frame_intervals e"
  "\<not> FrameIntervals_empty fis \<Longrightarrow> el_data_pointers e = Some edps \<Longrightarrow>
     el_data_pointers (reshape_pointers fis e)
       = Some (map (\<lambda>kv. (fst kv, reshape_pointer fis (snd kv))) edps)"
  "FrameIntervals_empty fis \<Longrightarrow> reshape_pointers fis e = e"
  by (simp_all add: reshape_pointers_def split: option.splits)

lemma create_update_element_Inr:
  assumes "create_update_element element_type name semantic_type fis uid ont_uid stream self
             = (Inr (), self')"
  shows "\<exists>e'. self' = put_element element_type uid (reshape_pointers fis e') self
           \<and> el_data_pointers e'
               = el_data_pointers (case get_element self element_type (Some uid) of
                                     None \<Rightarrow> empty_element | Some e \<Rightarrow> e)
           \<and> el_frame_intervals e'
               = (if \<not> FrameIntervals_empty fis then Some (fis_dict fis)
                  else el_frame_intervals (case get_element self element_type (Some uid) of
                                     None \<Rightarrow> empty_element | Some e \<Rightarrow> e))"
proof -
  define e0 where "e0 = (case get_element self element_type (Some uid) of
                           None \<Rightarrow> empty_element | Some e \<Rightarrow> e)"
  define e1 where "e1 = (case name of None \<Rightarrow> e0 | Some n \<Rightarrow> e0\<lparr>el_name := Some n\<rparr>)"
  define e2 where "e2 = (case semantic_type of None \<Rightarrow> e1 | Some t \<Rightarrow> e1\<lparr>el_type := Some t\<rparr>)"
  define e3 where "e3 = (if \<not> FrameIntervals_empty fis
                then e2\<lparr>el_frame_intervals := Some (fis_dict fis)\<rparr> else e2)"
  define e4 where "e4 = (case ont_uid of
                  None \<Rightarrow> e3
                | Some ou \<Rightarrow>
                    (case get_ontology self ou of
                       None \<Rightarrow> e3
                     | Some uri \<Rightarrow> if uri \<noteq> [] then e3\<lparr>el_ontology_uid := Some ou\<rparr> else e3))"
  have p: "el_data_pointers e4 = el_data_pointers e0"
    by (simp add: e4_def e3_def e2_def e1_def split: option.splits)
  have f: "el_frame_intervals e4
      = (if \<not> FrameIntervals_empty fis then Some (fis_dict fis) else el_frame_intervals e0)"
    by (simp add: e4_def e3_def e2_def e1_def split: option.splits)
  have c: "create_update_element element_type name semantic_type fis uid ont_uid stream self
      = (case stream of
           None \<Rightarrow> (Inr (), put_element element_type uid (reshape_pointers fis e4) self)
         | Some st \<Rightarrow>
             (case has_stream self st of
                Inl err \<Rightarrow> (Inl err, put_element element_type uid e4 self)
              | Inr r \<Rightarrow>
                  (Inr (), put_element element_type uid
                     (reshape_pointers fis
                        (if truthy r then e4\<lparr>el_stream := Some st\<rparr> else e4)) self)))"
    unfolding create_update_element_def Let_def e4_def e3_def e2_def e1_def e0_def
    by (rule refl)
  show ?thesis
  proof (cases stream)
    case None
    with assms c have "self' = put_element element_type uid (reshape_pointers fis e4) self"
      by simp
    with p f show ?thesis unfolding e0_def by blast
  next
    case (Some st)
    with assms c obtain r where r: "has_stream self st = Inr r"
      and s: "self' = put_element element_type uid
                     (reshape_pointers fis
                        (if truthy r then e4\<lparr>el_stream := Some st\<rparr> else e4)) self"
      by (cases "has_stream self st") auto
    let ?e = "if truthy r then e4\<lparr>el_stream := Some st\<rparr> else e4"
    have "el_data_pointers ?e = el_data_pointers e0" using p by simp
    moreover have "el_frame_intervals ?e
      = (if \<not> FrameIntervals_empty fis then Some (fis_dict fis) else el_frame_intervals e0)"
      using f by simp
    ultimately show ?thesis using s unfolding e0_def by blast
  qed
qed

lemma key_of_uid_arg_of_key: "key_of (uid_arg_of_key k) = Some k"
  by (cases k) simp_all

lemma has_get_element: "has self element_type uid \<longleftrightarrow> get_element self element_type uid \<noteq> None"
  by (simp add: has_def get_element_def split: option.splits)

lemma rm_element_KeyError:
  assumes "get_element self element_type (key_of uid) = Some e"
      and "el_frame_intervals e = None"
  shows "rm_element element_type uid self = (Inl KeyError, self)"
proof -
  from assms(1) obtain els k where "map_of (elements self) element_type = Some els"
    and "key_of uid = Some k" and "map_of els k = Some e"
    by (auto simp: get_element_def split: option.splits)
  with assms(2) show ?thesis by (simp add: rm_element_def has_def)
qed

lemma get_uid_to_assign_elements:
  "elements (snd (get_uid_to_assign element_type u self)) = elements self"
  by (simp add: get_uid_to_assign_def split: uid_arg.splits)

lemma get_element_get_uid_to_assign:
  "get_element (snd (get_uid_to_assign element_type u self)) t k = get_element self t k"
  by (simp add: get_element_def get_uid_to_assign_elements)

lemma add_frames_empty:
  "FrameIntervals_empty fis \<Longrightarrow> snd (add_frames fis element_type uid self) = self"
  by (simp add: add_frames_def split: option.splits pyuid.splits)

lemma add_element_no_interval:
  assumes emp: "FrameIntervals_empty fis"
      and ok: "add_element element_type name semantic_type fis uid' ont_uid' stream self
                 = (Inr (Some k), self')"
  shows "\<exists>e'. get_element self' element_type (Some k) = Some e'
           \<and> el_frame_intervals e'
               = el_frame_intervals (case get_element self element_type (Some k) of
                                       None \<Rightarrow> empty_element | Some e \<Rightarrow> e)"
proof -
  let ?ua = "get_uid_to_assign element_type
               (case uid_as_str uid' of None \<Rightarrow> UA_None | Some u \<Rightarrow> UA_str u) self"
  let ?cue = "create_update_element element_type name semantic_type fis (fst ?ua)
                (uid_as_str ont_uid') stream (snd ?ua)"
  from ok have sup: "uid_supported uid'" "uid_supported ont_uid'"
    by (auto simp: add_element_def split: if_splits)
  from ok sup emp obtain s2 where c: "?cue = (Inr (), s2)"
    by (cases ?cue; cases "fst ?cue") (auto simp: add_element_def Let_def then_do_def)
  from ok sup emp c have k: "k = fst ?ua"
    by (auto simp: add_element_def Let_def then_do_def split: if_splits prod.splits sum.splits)
  from ok sup emp c have s: "self' = s2 \<or> self' = snd (add_frames (get_frame_intervals s2) element_type (Some (fst ?ua)) s2)
        \<and> FrameIntervals_empty (get_frame_intervals s2)"
    by (auto simp: add_element_def Let_def then_do_def split: if_splits prod.splits sum.splits)
  then have s': "self' = s2"
    by (auto simp: add_frames_empty)
  from create_update_element_Inr [OF c] obtain e0 where
      p: "s2 = put_element element_type (fst ?ua) (reshape_pointers fis e0) (snd ?ua)"
    and f: "el_frame_intervals e0
             = (if \<not> FrameIntervals_empty fis then Some (fis_dict fis)
                else el_frame_intervals (case get_element (snd ?ua) element_type (Some (fst ?ua)) of
                                     None \<Rightarrow> empty_element | Some e \<Rightarrow> e))"
    by blast
  have g: "get_element self' element_type (Some k) = Some (reshape_pointers fis e0)"
    by (simp only: s' p k get_element_put_element)
  have "el_frame_intervals (reshape_pointers fis e0)
      = el_frame_intervals (case get_element self element_type (Some k) of
                                       None \<Rightarrow> empty_element | Some e \<Rightarrow> e)"
    using f emp by (simp add: reshape_pointers_fields(1) get_element_get_uid_to_assign k)
  with g show ?thesis by blast
qed

section \<open>The claims about the document store\<close>

text \<open>
  Claim C1. An element added without a frame interval to a document whose document-wide
  interval list is not empty should get a shadow in every frame of that span. In
  \<^verbatim>\<open>__add_element\<close> the branch that adds these shadows is guarded by
  \<^verbatim>\<open>vcd_frame_intervals.empty()\<close>, so it runs only when there is no frame to add to. At
  the input below the document spans the frames 0 and 1; the second object gets the UID
  \<open>1\<close> and no frame holds a shadow of it.
\<close>

theorem add_element_without_interval_adds_no_shadow:
  "frame_intervals (snd (add_object ''a'' '''' (FV_tuple (0, 1)) UA_None UA_None None VCD_init))
     = [FI 0 1]
   \<and> fst (add_object ''b'' '''' FV_None UA_None UA_None None
           (snd (add_object ''a'' '''' (FV_tuple (0, 1)) UA_None UA_None None VCD_init)))
       = Inr (Some (Str ''1''))
   \<and> frames (snd (add_object ''b'' '''' FV_None UA_None UA_None None
           (snd (add_object ''a'' '''' (FV_tuple (0, 1)) UA_None UA_None None VCD_init))))
       = [(0, \<lparr>fr_elements = [(ET_object, [(Str ''0'', None)])], fr_properties = None\<rparr>),
          (1, \<lparr>fr_elements = [(ET_object, [(Str ''0'', None)])], fr_properties = None\<rparr>)]"
  by code_simp

text \<open>
  Claim C2. Attaching a payload to a UID that names no element should return without a
  result and leave the document unchanged, for every element type. It does for objects,
  actions and contexts; \<^verbatim>\<open>add_event_data\<close> raises \<^verbatim>\<open>AttributeError\<close> on every call,
  whatever the UID, because \<^verbatim>\<open>ElementType.evevt\<close> is not a member.
\<close>

theorem add_event_data_raises:
  "add_event_data uid event_data frame_value self = (Inl AttributeError, self)
   \<and> add_object_data (UA_str ''0'') event_data frame_value VCD_init = (Inr (), VCD_init)
   \<and> add_action_data (UA_str ''0'') event_data frame_value VCD_init = (Inr (), VCD_init)
   \<and> add_context_data (UA_str ''0'') event_data frame_value VCD_init = (Inr (), VCD_init)"
  by (simp add: add_event_data_def ElementType_attr_def add_object_data_def add_action_data_def
      add_context_data_def add_element_data_def has_def VCD_init_def)

text \<open>
  Claim C3. A string UID that is neither numeric nor UUID-shaped should be refused and
  no element created. \<^verbatim>\<open>__get_uid_to_assign\<close> warns and returns the empty string, and
  \<^verbatim>\<open>__add_element\<close> goes on with it: the element is created under the empty string as
  its key, and that key is returned.
\<close>

theorem add_element_malformed_uid_creates_element:
  "fst (add_object ''a'' '''' FV_None (UA_str ''abc'') UA_None None VCD_init) = Inr (Some (Str ''''))
   \<and> elements (snd (add_object ''a'' '''' FV_None (UA_str ''abc'') UA_None None VCD_init))
       = [(ET_object, [(Str '''', \<lparr>el_name = Some ''a'', el_type = Some '''',
            el_frame_intervals = None, el_ontology_uid = None, el_stream = None,
            el_data = None, el_data_pointers = None\<rparr>)])]
   \<and> has (snd (add_object ''a'' '''' FV_None (UA_str ''abc'') UA_None None VCD_init))
         ET_object (Some (Str ''''))"
  by code_simp

text \<open>
  Claim C5. A stream reference should be attached exactly when a stream of that name is
  declared. With the stream \<open>camera\<close> declared, \<^verbatim>\<open>has_stream('camera')\<close> looks the member
  \<^verbatim>\<open>StreamType.camera\<close> up among the declared names and answers \<^verbatim>\<open>False\<close>: the object is
  created without the reference. With a declared name that is not the name of a member
  the lookup \<^verbatim>\<open>StreamType[stream]\<close> raises \<^verbatim>\<open>KeyError\<close> and the call fails.
\<close>

theorem declared_stream_not_attached:
  "map_option md_streams
       (metadata (add_stream ''camera'' ''uri'' ''front'' (STA_member ST_camera) VCD_init))
     = Some (Some [(SK_str ''camera'', [(''description'', V_str ''front''),
                     (''uri'', V_str ''uri''), (''type'', V_str ''camera'')])])
   \<and> has_stream (add_stream ''camera'' ''uri'' ''front'' (STA_member ST_camera) VCD_init) ''camera''
       = Inr (Some False)
   \<and> fst (add_object ''car'' '''' FV_None UA_None UA_None (Some ''camera'')
           (add_stream ''camera'' ''uri'' ''front'' (STA_member ST_camera) VCD_init))
       = Inr (Some (Str ''0''))
   \<and> map_option el_stream (get_element
         (snd (add_object ''car'' '''' FV_None UA_None UA_None (Some ''camera'')
                (add_stream ''camera'' ''uri'' ''front'' (STA_member ST_camera) VCD_init)))
         ET_object (Some (Str ''0''))) = Some None
   \<and> fst (add_object ''car'' '''' FV_None UA_None UA_None (Some ''CAM_FRONT'')
           (add_stream ''CAM_FRONT'' ''uri'' ''front'' (STA_member ST_camera) VCD_init))
       = Inl KeyError"
  by code_simp

text \<open>
  Claim C6. The document-wide interval list should cover every key of the frame map
  after every public mutation. \<^verbatim>\<open>add_frame_properties\<close>, \<^verbatim>\<open>add_odometry\<close> and the
  frame-scoped \<^verbatim>\<open>add_stream_properties\<close> create frame 5 on a fresh document and leave
  the interval list empty.
\<close>

theorem frame_properties_outside_frame_intervals:
  "map fst (frames (add_frame_properties 5 (Some ''t'') None VCD_init)) = [5]
   \<and> frame_intervals (add_frame_properties 5 (Some ''t'') None VCD_init) = []
   \<and> map fst (frames (add_odometry 5 [(''odometry'', V_None)] VCD_init)) = [5]
   \<and> frame_intervals (add_odometry 5 [(''odometry'', V_None)] VCD_init) = []
   \<and> map fst (frames (add_stream_properties ''camera'' None None None
         (Some \<lparr>frame_vcd = Some 5, sync_data = []\<rparr>)
         (add_stream ''camera'' ''uri'' ''front'' (STA_member ST_camera) VCD_init))) = [5]
   \<and> frame_intervals (add_stream_properties ''camera'' None None None
         (Some \<lparr>frame_vcd = Some 5, sync_data = []\<rparr>)
         (add_stream ''camera'' ''uri'' ''front'' (STA_member ST_camera) VCD_init)) = []"
  by code_simp


text \<open>
  Claim C9. On a fresh document the first \<^verbatim>\<open>add_ontology\<close> of a URI registers it and
  returns the UID \<open>0\<close>; the second call with the same URI returns \<^verbatim>\<open>None\<close> and leaves the
  state as it was, the ontology map still holding exactly one entry.
\<close>

theorem add_ontology_twice:
  "fst (add_ontology uri VCD_init) = Some ''0''
   \<and> ontologies (snd (add_ontology uri VCD_init)) = Some [(''0'', uri)]
   \<and> fst (add_ontology uri (snd (add_ontology uri VCD_init))) = None
   \<and> snd (add_ontology uri (snd (add_ontology uri VCD_init))) = snd (add_ontology uri VCD_init)
   \<and> map_option length (ontologies (snd (add_ontology uri (snd (add_ontology uri VCD_init)))))
       = Some 1"
  by (simp add: add_ontology_def VCD_init_def str_int_def str_nat.simps digit_char_def)




text \<open>
  Claim C10. \<^verbatim>\<open>rm_element\<close> reads \<^verbatim>\<open>element['frame_intervals']\<close> in its loop header. For
  an existing element whose record has no such key the call raises \<^verbatim>\<open>KeyError\<close> before
  anything is changed, so the element stays; a call that returns for an existing element
  found the key. An element that \<^verbatim>\<open>__add_element\<close> creates under a new key without a
  frame interval has no such key, so removing it raises.
\<close>

theorem rm_element_needs_frame_intervals:
  "(get_element self element_type (key_of uid) = Some e \<and> el_frame_intervals e = None
      \<longrightarrow> rm_element element_type uid self = (Inl KeyError, self)
          \<and> has (snd (rm_element element_type uid self)) element_type (key_of uid))
   \<and> (get_element self element_type (key_of uid) = Some e
        \<and> fst (rm_element element_type uid self) = Inr ()
      \<longrightarrow> el_frame_intervals e \<noteq> None)
   \<and> (FrameIntervals_empty fis \<and> get_element self0 element_type (Some k) = None
        \<and> add_element element_type name semantic_type fis uid' ont_uid' stream self0
            = (Inr (Some k), self1)
      \<longrightarrow> has self1 element_type (Some k)
          \<and> rm_element element_type (uid_arg_of_key k) self1 = (Inl KeyError, self1))"
proof (intro conjI impI)
  assume a: "get_element self element_type (key_of uid) = Some e \<and> el_frame_intervals e = None"
  then show r: "rm_element element_type uid self = (Inl KeyError, self)"
    by (simp add: rm_element_KeyError)
  from a show "has (snd (rm_element element_type uid self)) element_type (key_of uid)"
    by (simp add: r has_get_element)
next
  assume a: "get_element self element_type (key_of uid) = Some e
        \<and> fst (rm_element element_type uid self) = Inr ()"
  show "el_frame_intervals e \<noteq> None"
  proof
    assume "el_frame_intervals e = None"
    with a have "rm_element element_type uid self = (Inl KeyError, self)"
      by (simp add: rm_element_KeyError)
    with a show False by simp
  qed
next
  assume a: "FrameIntervals_empty fis \<and> get_element self0 element_type (Some k) = None
        \<and> add_element element_type name semantic_type fis uid' ont_uid' stream self0
            = (Inr (Some k), self1)"
  then obtain e' where g: "get_element self1 element_type (Some k) = Some e'"
    and f: "el_frame_intervals e' = None"
    using add_element_no_interval [of fis element_type name semantic_type uid' ont_uid' stream self0 k self1]
    by (auto simp: empty_element_def)
  from g show "has self1 element_type (Some k)"
    by (simp add: has_get_element)
  from g f show "rm_element element_type (uid_arg_of_key k) self1 = (Inl KeyError, self1)"
    by (simp add: rm_element_KeyError key_of_uid_arg_of_key)
qed

theorem rm_element_needs_frame_intervals_witness:
  "FrameIntervals_empty (FrameIntervals_init FV_None)
   \<and> get_element VCD_init ET_object (Some (Str ''0'')) = None
   \<and> fst (add_object ''a'' '''' FV_None UA_None UA_None None VCD_init) = Inr (Some (Str ''0''))
   \<and> get_element (snd (add_object ''a'' '''' FV_None UA_None UA_None None VCD_init)) ET_object
        (key_of (UA_str ''0''))
       = Some \<lparr>el_name = Some ''a'', el_type = Some '''', el_frame_intervals = None,
               el_ontology_uid = None, el_stream = None, el_data = None,
               el_data_pointers = None\<rparr>
   \<and> has (snd (add_object ''a'' '''' FV_None UA_None UA_None None VCD_init)) ET_object
        (Some (Str ''0''))
   \<and> rm_object (UA_str ''0'') (snd (add_object ''a'' '''' FV_None UA_None UA_None None VCD_init))
       = (Inl KeyError, snd (add_object ''a'' '''' FV_None UA_None UA_None None VCD_init))"
proof -
  let ?S = "snd (add_object ''a'' '''' FV_None UA_None UA_None None VCD_init)"
  let ?E = "\<lparr>el_name = Some ''a'', el_type = Some '''', el_frame_intervals = None,
               el_ontology_uid = None, el_stream = None, el_data = None,
               el_data_pointers = None\<rparr>"
  have emp: "FrameIntervals_empty (FrameIntervals_init FV_None)"
    by (simp add: FrameIntervals_empty_def)
  have g0: "get_element VCD_init ET_object (Some (Str ''0'')) = None"
    by (simp add: get_element_def VCD_init_def)
  have f: "fst (add_object ''a'' '''' FV_None UA_None UA_None None VCD_init) = Inr (Some (Str ''0''))"
    by code_simp
  then have ok: "add_element ET_object (Some ''a'') (Some '''') (FrameIntervals_init FV_None)
        UA_None UA_None None VCD_init = (Inr (Some (Str ''0'')), ?S)"
    unfolding add_object_def by (metis prod.collapse)
  have g: "get_element ?S ET_object (key_of (UA_str ''0'')) = Some ?E"
    by code_simp
  have n: "el_frame_intervals ?E = None"
    by simp
  note t = rm_element_needs_frame_intervals
    [of ?S ET_object "UA_str ''0''" ?E "FrameIntervals_init FV_None" VCD_init "Str ''0''"
        "Some ''a''" "Some ''''" UA_None UA_None None ?S]
  from t emp g0 ok have "has ?S ET_object (Some (Str ''0''))"
    by blast
  moreover from t g n have "rm_element ET_object (UA_str ''0'') ?S = (Inl KeyError, ?S)"
    by blast
  ultimately show ?thesis using emp g0 f g by (simp add: rm_object_def)
qed

end
